theory Spec2Isabelle
  imports Complex_Main "HOL-Library.Word"
begin

section \<open>psycopg3.dbapi20: compatibility objects with DBAPI 2.0\<close>

text \<open>
  A shallow embedding of \<^verbatim>\<open>psycopg3/dbapi20.py\<close>. The module is short and most of what
  it does goes through Python builtins (\<^verbatim>\<open>isinstance\<close>, \<^verbatim>\<open>bytes\<close>, \<^verbatim>\<open>repr\<close>, \<^verbatim>\<open>round\<close>,
  \<^verbatim>\<open>floor\<close>, \<^verbatim>\<open>datetime\<close>) and through collaborators of the package (\<^verbatim>\<open>oids\<close>, \<^verbatim>\<open>pq\<close>,
  \<^verbatim>\<open>adapt\<close>). The builtins are modelled as Python documents them; the collaborators are
  parameters or are modelled from the specification, and say so.
\<close>

subsection \<open>Python values and exceptions\<close>

type_synonym byte = "8 word"

text \<open>
  The values a caller can hand to the module where it accepts \<^verbatim>\<open>Any\<close>: a fragment of
  Python's objects large enough to reach every branch of the module. \<open>PyList\<close> stands
  for any iterable of objects (list, tuple).
\<close>

datatype pyobj =
    PyNone
  | PyBool bool
  | PyInt int
  | PyStr string
  | PyBytes "byte list"
  | PyByteArray "byte list"
  | PyList "pyobj list"

text \<open>
  Exceptions as values. \<open>TypeError\<close>, \<open>ValueError\<close> and \<open>OverflowError\<close> are Python's;
  \<open>UnknownTypeName\<close> is what the lookup of a name that the oid registry does not hold
  raises (the registry is not part of the module).
\<close>

datatype error =
    TypeError
  | ValueError
  | OverflowError
  | UnknownTypeName string

text \<open>
  \<^verbatim>\<open>isinstance(other, int)\<close>: true of an \<^verbatim>\<open>int\<close> and of a \<^verbatim>\<open>bool\<close> (a subclass of \<^verbatim>\<open>int\<close>,
  \<^verbatim>\<open>True == 1\<close>), with the integer the object compares as.
\<close>

fun isinstance_int :: "pyobj \<Rightarrow> int option" where
  "isinstance_int (PyInt i) = Some i"
| "isinstance_int (PyBool b) = Some (if b then 1 else 0)"
| "isinstance_int _ = None"

text \<open>\<^verbatim>\<open>isinstance(wrapped, bytes)\<close>: a \<^verbatim>\<open>bytearray\<close> is not a \<^verbatim>\<open>bytes\<close>.\<close>

fun isinstance_bytes :: "pyobj \<Rightarrow> byte list option" where
  "isinstance_bytes (PyBytes b) = Some b"
| "isinstance_bytes _ = None"

text \<open>
  The builtin \<^verbatim>\<open>bytes(x)\<close>. A string without an encoding is a \<^verbatim>\<open>TypeError\<close>; an integer
  \<open>n\<close> gives \<open>n\<close> zero bytes and a negative one is a \<^verbatim>\<open>ValueError\<close>; an object with the
  buffer protocol gives its content; an iterable gives its items, each of which must be
  an integer (\<^verbatim>\<open>TypeError\<close> otherwise) in \<^verbatim>\<open>range(0, 256)\<close> (\<^verbatim>\<open>ValueError\<close> otherwise), the
  first offending item deciding; anything else is a \<^verbatim>\<open>TypeError\<close>. Memory is unbounded
  in the model.
\<close>

fun byte_of_item :: "pyobj \<Rightarrow> error + byte" where
  "byte_of_item (PyInt i) = (if 0 \<le> i \<and> i < 256 then Inr (word_of_int i) else Inl ValueError)"
| "byte_of_item (PyBool b) = Inr (if b then 1 else 0)"
| "byte_of_item _ = Inl TypeError"

fun bytes_of_items :: "pyobj list \<Rightarrow> error + byte list" where
  "bytes_of_items [] = Inr []"
| "bytes_of_items (x # xs) =
     (case byte_of_item x of
        Inl e \<Rightarrow> Inl e
      | Inr b \<Rightarrow> (case bytes_of_items xs of Inl e \<Rightarrow> Inl e | Inr bs \<Rightarrow> Inr (b # bs)))"

fun py_bytes :: "pyobj \<Rightarrow> error + byte list" where
  "py_bytes (PyStr s) = Inl TypeError"
| "py_bytes (PyInt n) = (if n < 0 then Inl ValueError else Inr (replicate (nat n) 0))"
| "py_bytes (PyBool b) = Inr (replicate (if b then 1 else 0) 0)"
| "py_bytes (PyBytes b) = Inr b"
| "py_bytes (PyByteArray b) = Inr b"
| "py_bytes (PyList xs) = bytes_of_items xs"
| "py_bytes PyNone = Inl TypeError"

subsection \<open>The oid registry\<close>

text \<open>
  \<^verbatim>\<open>from .oids import postgres_types as builtins\<close>: a table of the package, not of this
  module. It is a parameter of everything that reads it: a finite map from a type's name
  to a record with, at least, its oid.
\<close>

record TypeInfo =
  type_name :: string
  oid :: int

type_synonym registry = "string \<rightharpoonup> TypeInfo"

text \<open>
  Modelled from the spec: the registry's subscription \<^verbatim>\<open>builtins[n]\<close> is defined in
  \<^verbatim>\<open>psycopg3/oids.py\<close>, which is missing here. A name that the registry holds gives its
  record; a name absent from the registry fails with \<open>UnknownTypeName\<close>.
\<close>

definition getitem :: "registry \<Rightarrow> string \<Rightarrow> error + TypeInfo" where
  "getitem builtins n =
     (case builtins n of None \<Rightarrow> Inl (UnknownTypeName n) | Some info \<Rightarrow> Inr info)"

subsection \<open>DBAPITypeObject\<close>

record DBAPITypeObject =
  name :: string
  oid_values :: "int list"

text \<open>
  The generator \<^verbatim>\<open>(builtins[n].oid for n in type_names)\<close> consumed by \<^verbatim>\<open>tuple\<close>: the names
  are looked up from left to right and the first failing lookup ends the construction.
\<close>

fun resolve_oids :: "registry \<Rightarrow> string list \<Rightarrow> error + int list" where
  "resolve_oids builtins [] = Inr []"
| "resolve_oids builtins (n # ns) =
     (case getitem builtins n of
        Inl e \<Rightarrow> Inl e
      | Inr info \<Rightarrow>
          (case resolve_oids builtins ns of
             Inl e \<Rightarrow> Inl e
           | Inr os \<Rightarrow> Inr (oid info # os)))"

definition DBAPITypeObject_init ::
  "registry \<Rightarrow> string \<Rightarrow> string list \<Rightarrow> error + DBAPITypeObject" where
  "DBAPITypeObject_init builtins nm type_names =
     (case resolve_oids builtins type_names of
        Inl e \<Rightarrow> Inl e
      | Inr os \<Rightarrow> Inr \<lparr>name = nm, oid_values = os\<rparr>)"

definition DBAPITypeObject_repr :: "DBAPITypeObject \<Rightarrow> string" where
  "DBAPITypeObject_repr self = ''psycopg3.'' @ name self"

text \<open>
  What \<^verbatim>\<open>__eq__\<close> and \<^verbatim>\<open>__ne__\<close> return: a boolean, or the singleton \<^verbatim>\<open>NotImplemented\<close>.
  Neither method has a path that raises.
\<close>

datatype comparison = Bool bool | NotImplemented

definition DBAPITypeObject_eq :: "DBAPITypeObject \<Rightarrow> pyobj \<Rightarrow> comparison" where
  "DBAPITypeObject_eq self other =
     (case isinstance_int other of
        Some i \<Rightarrow> Bool (i \<in> set (oid_values self))
      | None \<Rightarrow> NotImplemented)"

definition DBAPITypeObject_ne :: "DBAPITypeObject \<Rightarrow> pyobj \<Rightarrow> comparison" where
  "DBAPITypeObject_ne self other =
     (case isinstance_int other of
        Some i \<Rightarrow> Bool (i \<notin> set (oid_values self))
      | None \<Rightarrow> NotImplemented)"

text \<open>The module's five categories, for a given registry.\<close>

definition BINARY :: "registry \<Rightarrow> error + DBAPITypeObject" where
  "BINARY builtins = DBAPITypeObject_init builtins ''BINARY'' [''bytea'']"

definition DATETIME :: "registry \<Rightarrow> error + DBAPITypeObject" where
  "DATETIME builtins =
     DBAPITypeObject_init builtins ''DATETIME''
       [''timestamp'', ''timestamptz'', ''date'', ''time'', ''timetz'', ''interval'']"

definition NUMBER :: "registry \<Rightarrow> error + DBAPITypeObject" where
  "NUMBER builtins =
     DBAPITypeObject_init builtins ''NUMBER''
       [''int2'', ''int4'', ''int8'', ''float4'', ''float8'', ''numeric'']"

definition ROWID :: "registry \<Rightarrow> error + DBAPITypeObject" where
  "ROWID builtins = DBAPITypeObject_init builtins ''ROWID'' [''oid'']"

definition STRING :: "registry \<Rightarrow> error + DBAPITypeObject" where
  "STRING builtins = DBAPITypeObject_init builtins ''STRING'' [''text'', ''varchar'', ''bpchar'']"

text \<open>
  A registry to evaluate with: the names the module asks for, with the oids that
  PostgreSQL's catalogue gives them.
\<close>

definition pg_catalog :: "(string \<times> int) list" where
  "pg_catalog =
     [(''bytea'', 17), (''int8'', 20), (''int2'', 21), (''int4'', 23), (''text'', 25),
      (''oid'', 26), (''float4'', 700), (''float8'', 701), (''bpchar'', 1042),
      (''varchar'', 1043), (''date'', 1082), (''time'', 1083), (''timestamp'', 1114),
      (''timestamptz'', 1184), (''interval'', 1186), (''timetz'', 1266), (''numeric'', 1700)]"

definition postgres_types :: registry where
  "postgres_types n =
     map_option (\<lambda>i. \<lparr>type_name = n, oid = i\<rparr>) (map_of pg_catalog n)"

subsection \<open>Binary\<close>

text \<open>
  The wrapper keeps the object it is given. \<open>class_name\<close> is \<^verbatim>\<open>self.__class__.__name__\<close>:
  \<^verbatim>\<open>Binary\<close> for an object that \<^verbatim>\<open>Binary(obj)\<close> made.
\<close>

record Binary =
  class_name :: string
  obj :: pyobj

definition Binary_init :: "pyobj \<Rightarrow> Binary" where
  "Binary_init x = \<lparr>class_name = ''Binary'', obj = x\<rparr>"

text \<open>A natural number in decimal, as an f-string formats \<^verbatim>\<open>len(sobj)\<close>.\<close>

fun str_nat :: "nat \<Rightarrow> string" where
  "str_nat n =
     (if n < 10 then [''0123456789'' ! n]
      else str_nat (n div 10) @ [''0123456789'' ! (n mod 10)])"

declare str_nat.simps [simp del]

text \<open>Reading decimal notation back, to say what number a string of digits writes.\<close>

definition digit_value :: "char \<Rightarrow> nat" where
  "digit_value c = of_char c - 48"

definition nat_of_str :: "string \<Rightarrow> nat" where
  "nat_of_str s = foldl (\<lambda>a c. 10 * a + digit_value c) 0 s"

text \<open>
  \<^verbatim>\<open>Binary.__repr__\<close>. The builtin \<^verbatim>\<open>repr\<close> is a parameter: the method only measures and
  cuts what it returns. A string is the list of its characters, so \<open>length\<close> is \<^verbatim>\<open>len\<close>
  and \<open>take 35\<close> is the slice \<^verbatim>\<open>[:35]\<close>.
\<close>

definition Binary_repr :: "(pyobj \<Rightarrow> string) \<Rightarrow> Binary \<Rightarrow> string" where
  "Binary_repr repr self =
     (let sobj = repr (obj self);
          sobj = (if length sobj > 40
                  then take 35 sobj @ '' ... ('' @ str_nat (length sobj) @ '' byteschars)''
                  else sobj)
      in class_name self @ ''('' @ sobj @ '')'')"

subsection \<open>The collaborators of the dumpers\<close>

datatype Format = Format_TEXT | Format_BINARY

text \<open>A connection of the wire protocol, as an opaque handle, and the objects holding it.\<close>

datatype PGconn = PGconn nat

record Connection =
  pgconn :: PGconn

record AdaptContext =
  ctx_connection :: "Connection option"

text \<open>
  Modelled from the spec: the class \<^verbatim>\<open>pq.Escaping\<close> is missing here. The escaping
  collaborator is constructible from an optional live-connection handle and from no
  connection, and the construction succeeds in both cases; it exposes
  \<^verbatim>\<open>escape_bytea(bytes) -> bytes\<close>. The rule set that turns bytes into their escaped form
  belongs to the protocol library: it is the parameter \<open>rules\<close>, which may depend on the
  handle and has the context-free rules at \<open>None\<close>.
\<close>

record Escaping =
  conn :: "PGconn option"

definition Escaping_init :: "PGconn option \<Rightarrow> error + Escaping" where
  "Escaping_init c = Inr \<lparr>conn = c\<rparr>"

definition escape_bytea ::
  "(PGconn option \<Rightarrow> byte list \<Rightarrow> byte list) \<Rightarrow> Escaping \<Rightarrow> byte list \<Rightarrow> byte list" where
  "escape_bytea rules self data = rules (conn self) data"

text \<open>
  Modelled from the spec: the base class \<^verbatim>\<open>adapt.Dumper\<close> is missing here. Its constructor
  keeps the class the dumper is for and resolves the connection from the context it is
  given: none when there is no context, the context's own (which may be none) otherwise.
  It does not fail.
\<close>

record Dumper =
  cls :: string
  connection :: "Connection option"

definition Dumper_init :: "string \<Rightarrow> AdaptContext option \<Rightarrow> error + Dumper" where
  "Dumper_init c context =
     Inr \<lparr>cls = c,
          connection = (case context of None \<Rightarrow> None | Some ctx \<Rightarrow> ctx_connection ctx)\<rparr>"

subsection \<open>BinaryBinaryDumper\<close>

definition BinaryBinaryDumper_format :: Format where
  "BinaryBinaryDumper_format = Format_BINARY"

text \<open>The class attribute \<^verbatim>\<open>_oid = builtins["bytea"].oid\<close>.\<close>

definition BinaryBinaryDumper_oid :: "registry \<Rightarrow> error + int" where
  "BinaryBinaryDumper_oid builtins =
     (case getitem builtins ''bytea'' of Inl e \<Rightarrow> Inl e | Inr info \<Rightarrow> Inr (oid info))"

definition BinaryBinaryDumper_dump :: "Binary \<Rightarrow> error + byte list" where
  "BinaryBinaryDumper_dump b =
     (let wrapped = obj b in
      case isinstance_bytes wrapped of
        Some raw \<Rightarrow> Inr raw
      | None \<Rightarrow> py_bytes wrapped)"

subsection \<open>BinaryTextDumper\<close>

record BinaryTextDumper = Dumper +
  esc :: Escaping

definition BinaryTextDumper_format :: Format where
  "BinaryTextDumper_format = Format_TEXT"

text \<open>
  \<^verbatim>\<open>__init__\<close>: the base constructor, then
  \<^verbatim>\<open>Escaping(self.connection.pgconn if self.connection else None)\<close>. A connection object is
  true; \<^verbatim>\<open>None\<close> is false, and then \<^verbatim>\<open>.pgconn\<close> is not read.
\<close>

definition BinaryTextDumper_init :: "string \<Rightarrow> AdaptContext option \<Rightarrow> error + BinaryTextDumper" where
  "BinaryTextDumper_init c context =
     (case Dumper_init c context of
        Inl e \<Rightarrow> Inl e
      | Inr self \<Rightarrow>
          (case Escaping_init
                  (case connection self of Some cn \<Rightarrow> Some (pgconn cn) | None \<Rightarrow> None) of
             Inl e \<Rightarrow> Inl e
           | Inr en \<Rightarrow> Inr (Dumper.extend self (BinaryTextDumper.fields en))))"

text \<open>\<^verbatim>\<open>dump\<close>: \<^verbatim>\<open>super().dump(obj)\<close>, whose exception passes through, then the escaping.\<close>

definition BinaryTextDumper_dump ::
  "(PGconn option \<Rightarrow> byte list \<Rightarrow> byte list) \<Rightarrow> BinaryTextDumper \<Rightarrow> Binary \<Rightarrow> error + byte list" where
  "BinaryTextDumper_dump rules self b =
     (case BinaryBinaryDumper_dump b of
        Inl e \<Rightarrow> Inl e
      | Inr data \<Rightarrow> Inr (escape_bytea rules (esc self) data))"

text \<open>
  A rule set to evaluate with, the same for every handle and for none: the hex format,
  \<^verbatim>\<open>\x\<close> and two hexadecimal digits for each byte.
\<close>

definition hex_digit :: "nat \<Rightarrow> byte" where
  "hex_digit d = of_char (''0123456789abcdef'' ! d)"

definition hex_rules :: "PGconn option \<Rightarrow> byte list \<Rightarrow> byte list" where
  "hex_rules c data =
     of_char CHR 0x5C # of_char CHR ''x'' #
     concat (map (\<lambda>b. [hex_digit (unat b div 16), hex_digit (unat b mod 16)]) data)"

subsection \<open>Dates and times of the standard library\<close>

text \<open>
  The \<^verbatim>\<open>datetime\<close> module's classes, with the checks their constructors make. As in
  Python, a \<^verbatim>\<open>datetime\<close> is a \<^verbatim>\<open>date\<close> with more fields. An offset is a number of seconds.
\<close>

record timezone =
  utcoffset :: int

record date =
  year :: int
  month :: int
  day :: int

record datetime = date +
  hour :: int
  minute :: int
  second :: int
  microsecond :: int
  tzinfo :: "timezone option"

record time =
  time_hour :: int
  time_minute :: int
  time_second :: int
  time_microsecond :: int
  time_tzinfo :: "timezone option"

definition is_leap :: "int \<Rightarrow> bool" where
  "is_leap y = (y mod 4 = 0 \<and> (y mod 100 \<noteq> 0 \<or> y mod 400 = 0))"

definition days_in_month :: "int \<Rightarrow> int \<Rightarrow> int" where
  "days_in_month y m =
     (if m = 2 \<and> is_leap y then 29
      else [31, 28, 31, 30, 31, 30, 31, 31, 30, 31, 30, 31] ! nat (m - 1))"

definition check_date_fields :: "int \<Rightarrow> int \<Rightarrow> int \<Rightarrow> bool" where
  "check_date_fields y m d =
     (1 \<le> y \<and> y \<le> 9999 \<and> 1 \<le> m \<and> m \<le> 12 \<and> 1 \<le> d \<and> d \<le> days_in_month y m)"

definition check_time_fields :: "int \<Rightarrow> int \<Rightarrow> int \<Rightarrow> int \<Rightarrow> bool" where
  "check_time_fields h mi s us =
     (0 \<le> h \<and> h \<le> 23 \<and> 0 \<le> mi \<and> mi \<le> 59 \<and> 0 \<le> s \<and> s \<le> 59 \<and> 0 \<le> us \<and> us \<le> 999999)"

definition date_new :: "int \<Rightarrow> int \<Rightarrow> int \<Rightarrow> error + date" where
  "date_new y m d =
     (if check_date_fields y m d then Inr \<lparr>year = y, month = m, day = d\<rparr> else Inl ValueError)"

definition time_new :: "int \<Rightarrow> int \<Rightarrow> int \<Rightarrow> int \<Rightarrow> timezone option \<Rightarrow> error + time" where
  "time_new h mi s us tz =
     (if check_time_fields h mi s us
      then Inr \<lparr>time_hour = h, time_minute = mi, time_second = s, time_microsecond = us,
                time_tzinfo = tz\<rparr>
      else Inl ValueError)"

definition datetime_new ::
  "int \<Rightarrow> int \<Rightarrow> int \<Rightarrow> int \<Rightarrow> int \<Rightarrow> int \<Rightarrow> int \<Rightarrow> timezone option \<Rightarrow> error + datetime" where
  "datetime_new y m d h mi s us tz =
     (if check_date_fields y m d \<and> check_time_fields h mi s us
      then Inr \<lparr>year = y, month = m, day = d, hour = h, minute = mi, second = s,
                microsecond = us, tzinfo = tz\<rparr>
      else Inl ValueError)"

text \<open>
  \<^verbatim>\<open>dt.timezone(dt.timedelta(seconds=off))\<close>: the offset must lie strictly between minus and
  plus twenty-four hours.
\<close>

definition timezone_new :: "int \<Rightarrow> error + timezone" where
  "timezone_new off =
     (if - 86400 < off \<and> off < 86400 then Inr \<lparr>utcoffset = off\<rparr> else Inl ValueError)"

text \<open>The methods \<^verbatim>\<open>datetime.date()\<close> and \<^verbatim>\<open>datetime.time()\<close>; the latter drops the zone.\<close>

definition datetime_date :: "datetime \<Rightarrow> date" where
  "datetime_date self = \<lparr>year = year self, month = month self, day = day self\<rparr>"

definition datetime_time :: "datetime \<Rightarrow> time" where
  "datetime_time self =
     \<lparr>time_hour = hour self, time_minute = minute self, time_second = second self,
      time_microsecond = microsecond self, time_tzinfo = None\<rparr>"

text \<open>
  The proleptic Gregorian ordinal of a day (1 for 0001-01-01; 719163 for 1970-01-01) and
  the method \<^verbatim>\<open>datetime.timestamp()\<close> of a datetime with a zone: the seconds between it
  and 1970-01-01T00:00:00+00:00, as an exact number. A datetime without a zone goes
  through the host's local time instead; \<open>TimestampFromTicks\<close> makes none, and the model
  gives \<open>None\<close> for it.
\<close>

definition days_before_year :: "int \<Rightarrow> int" where
  "days_before_year y = (let p = y - 1 in p * 365 + p div 4 - p div 100 + p div 400)"

definition days_before_month :: "int \<Rightarrow> int \<Rightarrow> int" where
  "days_before_month y m =
     [0, 31, 59, 90, 120, 151, 181, 212, 243, 273, 304, 334] ! nat (m - 1)
       + (if m > 2 \<and> is_leap y then 1 else 0)"

definition ymd2ord :: "int \<Rightarrow> int \<Rightarrow> int \<Rightarrow> int" where
  "ymd2ord y m d = days_before_year y + days_before_month y m + d"

definition datetime_timestamp :: "datetime \<Rightarrow> rat option" where
  "datetime_timestamp self =
     (case tzinfo self of
        None \<Rightarrow> None
      | Some tz \<Rightarrow>
          Some (of_int ((ymd2ord (year self) (month self) (day self) - 719163) * 86400
                        + hour self * 3600 + minute self * 60 + second self - utcoffset tz)
                + of_int (microsecond self) / 1000000))"

text \<open>
  The result of \<^verbatim>\<open>time.localtime\<close>, with the fields the module reads: the six that
  \<^verbatim>\<open>t[:6]\<close> selects, and \<^verbatim>\<open>tm_gmtoff\<close>.
\<close>

record struct_time =
  tm_year :: int
  tm_mon :: int
  tm_mday :: int
  tm_hour :: int
  tm_min :: int
  tm_sec :: int
  tm_gmtoff :: int

text \<open>
  The builtins \<^verbatim>\<open>math.floor\<close> and \<^verbatim>\<open>round\<close> on a float. \<^verbatim>\<open>round\<close> gives the nearest integer
  and, half way between two, the even one. A float is modelled by the rational number it
  stands for (every finite double is one); the model computes \<^verbatim>\<open>ticks - secs\<close> and
  \<^verbatim>\<open>frac * 1_000_000\<close> exactly, where the double product is rounded to 53 bits.
\<close>

definition py_floor :: "rat \<Rightarrow> int" where
  "py_floor x = \<lfloor>x\<rfloor>"

definition py_round :: "rat \<Rightarrow> int" where
  "py_round x =
     (let f = \<lfloor>x\<rfloor>; r = x - of_int f in
      if r < 1 / 2 then f
      else if 1 / 2 < r then f + 1
      else if even f then f else f + 1)"

subsection \<open>The constructors of DBAPI 2.0\<close>

definition Date :: "int \<Rightarrow> int \<Rightarrow> int \<Rightarrow> error + date" where
  "Date y m d = date_new y m d"

definition Time :: "int \<Rightarrow> int \<Rightarrow> int \<Rightarrow> error + time" where
  "Time h mi s = time_new h mi s 0 None"

definition Timestamp :: "int \<Rightarrow> int \<Rightarrow> int \<Rightarrow> int \<Rightarrow> int \<Rightarrow> int \<Rightarrow> error + datetime" where
  "Timestamp y m d h mi s = datetime_new y m d h mi s 0 None"

text \<open>
  \<^verbatim>\<open>TimestampFromTicks\<close>. The host's \<^verbatim>\<open>time.localtime\<close> is the parameter \<open>localtime\<close>: it is
  given the ticks themselves, and fails or returns the local calendar fields and offset
  of that instant.
\<close>

definition TimestampFromTicks :: "(rat \<Rightarrow> error + struct_time) \<Rightarrow> rat \<Rightarrow> error + datetime" where
  "TimestampFromTicks localtime ticks =
     (let secs = py_floor ticks;
          frac = ticks - of_int secs
      in case localtime ticks of
           Inl e \<Rightarrow> Inl e
         | Inr t \<Rightarrow>
             (case timezone_new (tm_gmtoff t) of
                Inl e \<Rightarrow> Inl e
              | Inr tz \<Rightarrow>
                  datetime_new (tm_year t) (tm_mon t) (tm_mday t)
                    (tm_hour t) (tm_min t) (tm_sec t)
                    (py_round (frac * 1000000)) (Some tz)))"

definition DateFromTicks :: "(rat \<Rightarrow> error + struct_time) \<Rightarrow> rat \<Rightarrow> error + date" where
  "DateFromTicks localtime ticks =
     (case TimestampFromTicks localtime ticks of
        Inl e \<Rightarrow> Inl e
      | Inr ts \<Rightarrow> Inr (datetime_date ts))"

definition TimeFromTicks :: "(rat \<Rightarrow> error + struct_time) \<Rightarrow> rat \<Rightarrow> error + time" where
  "TimeFromTicks localtime ticks =
     (case TimestampFromTicks localtime ticks of
        Inl e \<Rightarrow> Inl e
      | Inr ts \<Rightarrow> Inr (datetime_time ts))"

text \<open>
  A host to evaluate with: one whose zone has the same offset \<open>off\<close> from UTC at all
  times (UTC itself at \<open>off = 0\<close>). Its \<^verbatim>\<open>localtime\<close> takes the floor of the ticks, shifts
  by the offset and reads the calendar off the count of days since 1970-01-01.
\<close>

definition civil_from_days :: "int \<Rightarrow> int \<times> int \<times> int" where
  "civil_from_days n =
     (let z = n + 719468;
          era = z div 146097;
          doe = z mod 146097;
          yoe = (doe - doe div 1460 + doe div 36524 - doe div 146096) div 365;
          doy = doe - (365 * yoe + yoe div 4 - yoe div 100);
          mp = (5 * doy + 2) div 153;
          d = doy - (153 * mp + 2) div 5 + 1;
          m = (if mp < 10 then mp + 3 else mp - 9);
          y = yoe + era * 400 + (if m \<le> 2 then 1 else 0)
      in (y, m, d))"

definition localtime_fixed :: "int \<Rightarrow> rat \<Rightarrow> error + struct_time" where
  "localtime_fixed off ticks =
     (let s = \<lfloor>ticks\<rfloor> + off;
          sod = s mod 86400
      in case civil_from_days (s div 86400) of
           (y, m, d) \<Rightarrow>
             Inr \<lparr>tm_year = y, tm_mon = m, tm_mday = d,
                  tm_hour = sod div 3600, tm_min = sod mod 3600 div 60, tm_sec = sod mod 60,
                  tm_gmtoff = off\<rparr>)"

section \<open>Properties\<close>

subsection \<open>Type categories\<close>

lemma resolve_oids_missing:
  assumes "n \<in> set ns" and "builtins n = None"
  shows "\<exists>m. m \<in> set ns \<and> builtins m = None \<and> resolve_oids builtins ns = Inl (UnknownTypeName m)"
  using assms
proof (induction ns)
  case Nil
  then show ?case by simp
next
  case (Cons a ns)
  show ?case
  proof (cases "builtins a")
    case None
    then show ?thesis by (auto simp: getitem_def)
  next
    case (Some info)
    with Cons.prems have "n \<in> set ns" by auto
    from Cons.IH this Cons.prems(2) obtain m
      where "m \<in> set ns" "builtins m = None" "resolve_oids builtins ns = Inl (UnknownTypeName m)"
      by blast
    with Some show ?thesis by (auto simp: getitem_def)
  qed
qed

lemma resolve_oids_all:
  "(\<And>n. n \<in> set ns \<Longrightarrow> builtins n \<noteq> None) \<Longrightarrow>
   resolve_oids builtins ns = Inr (map (\<lambda>n. oid (the (builtins n))) ns)"
  by (induction ns) (auto simp: getitem_def split: option.splits)

text \<open>
  Claim C9. Constructing a type category looks every symbolic type name up in the oid
  registry. If some name of the list is absent from the registry, the construction fails
  with \<open>UnknownTypeName\<close>, for a name of the list that the registry does not hold. If
  the registry holds every name, the construction succeeds and the member oids are
  exactly the oids the names resolve to, in the order of the names.
\<close>

theorem DBAPITypeObject_init_resolves:
  "((\<exists>n. n \<in> set type_names \<and> builtins n = None) \<longrightarrow>
      (\<exists>m. m \<in> set type_names \<and> builtins m = None \<and>
           DBAPITypeObject_init builtins nm type_names = Inl (UnknownTypeName m)))
   \<and> ((\<forall>n. n \<in> set type_names \<longrightarrow> builtins n \<noteq> None) \<longrightarrow>
      DBAPITypeObject_init builtins nm type_names =
        Inr \<lparr>name = nm, oid_values = map (\<lambda>n. oid (the (builtins n))) type_names\<rparr>)"
proof (intro conjI impI)
  assume "\<exists>n. n \<in> set type_names \<and> builtins n = None"
  then obtain n where n: "n \<in> set type_names" "builtins n = None" by blast
  from resolve_oids_missing [of n type_names builtins] n obtain m
    where "m \<in> set type_names" "builtins m = None"
      "resolve_oids builtins type_names = Inl (UnknownTypeName m)" by blast
  then show "\<exists>m. m \<in> set type_names \<and> builtins m = None \<and>
           DBAPITypeObject_init builtins nm type_names = Inl (UnknownTypeName m)"
    by (auto simp: DBAPITypeObject_init_def)
next
  assume "\<forall>n. n \<in> set type_names \<longrightarrow> builtins n \<noteq> None"
  then have "resolve_oids builtins type_names = Inr (map (\<lambda>n. oid (the (builtins n))) type_names)"
    by (intro resolve_oids_all) blast
  then show "DBAPITypeObject_init builtins nm type_names =
        Inr \<lparr>name = nm, oid_values = map (\<lambda>n. oid (the (builtins n))) type_names\<rparr>"
    by (simp add: DBAPITypeObject_init_def)
qed

lemma postgres_types_simps:
  "postgres_types ''int4'' = Some \<lparr>type_name = ''int4'', oid = 23\<rparr>"
  "postgres_types ''json'' = None"
  "postgres_types ''text'' = Some \<lparr>type_name = ''text'', oid = 25\<rparr>"
  "postgres_types ''varchar'' = Some \<lparr>type_name = ''varchar'', oid = 1043\<rparr>"
  "postgres_types ''bpchar'' = Some \<lparr>type_name = ''bpchar'', oid = 1042\<rparr>"
  by (simp_all add: postgres_types_def pg_catalog_def)

theorem DBAPITypeObject_init_resolves_witness:
  "postgres_types ''json'' = None
   \<and> DBAPITypeObject_init postgres_types ''JSONISH'' [''int4'', ''json'', ''text''] =
       Inl (UnknownTypeName ''json'')
   \<and> postgres_types ''text'' \<noteq> None \<and> postgres_types ''varchar'' \<noteq> None
   \<and> postgres_types ''bpchar'' \<noteq> None
   \<and> STRING postgres_types = Inr \<lparr>name = ''STRING'', oid_values = [25, 1043, 1042]\<rparr>"
proof -
  have absent: "\<exists>n. n \<in> set [''int4'', ''json'', ''text''] \<and> postgres_types n = None"
    by (rule exI [of _ "''json''"]) (simp add: postgres_types_simps)
  from DBAPITypeObject_init_resolves [of "[''int4'', ''json'', ''text'']" postgres_types "''JSONISH''"]
    absent
  obtain m where m: "m \<in> set [''int4'', ''json'', ''text'']" "postgres_types m = None"
    "DBAPITypeObject_init postgres_types ''JSONISH'' [''int4'', ''json'', ''text''] =
       Inl (UnknownTypeName m)"
    by blast
  from m(1,2) have "m = ''json''" by (auto simp: postgres_types_simps)
  with m(3) have first: "DBAPITypeObject_init postgres_types ''JSONISH'' [''int4'', ''json'', ''text''] =
       Inl (UnknownTypeName ''json'')" by simp
  have present: "\<forall>n. n \<in> set [''text'', ''varchar'', ''bpchar''] \<longrightarrow> postgres_types n \<noteq> None"
    by (auto simp: postgres_types_simps)
  with DBAPITypeObject_init_resolves [of "[''text'', ''varchar'', ''bpchar'']" postgres_types "''STRING''"]
  have "DBAPITypeObject_init postgres_types ''STRING'' [''text'', ''varchar'', ''bpchar''] =
        Inr \<lparr>name = ''STRING'',
             oid_values = map (\<lambda>n. oid (the (postgres_types n))) [''text'', ''varchar'', ''bpchar'']\<rparr>"
    by blast
  then have second: "STRING postgres_types = Inr \<lparr>name = ''STRING'', oid_values = [25, 1043, 1042]\<rparr>"
    by (simp add: STRING_def postgres_types_simps)
  from first second show ?thesis by (simp add: postgres_types_simps)
qed

lemma DBAPITypeObject_init_values:
  assumes "DBAPITypeObject_init builtins nm type_names = Inr self"
  shows "oid_values self = map (\<lambda>n. oid (the (builtins n))) type_names"
    and "\<And>n. n \<in> set type_names \<Longrightarrow> builtins n \<noteq> None"
proof -
  have all: "builtins n \<noteq> None" if "n \<in> set type_names" for n
  proof
    assume "builtins n = None"
    from resolve_oids_missing [of n type_names builtins] that this
    obtain m where "resolve_oids builtins type_names = Inl (UnknownTypeName m)" by blast
    with assms show False by (simp add: DBAPITypeObject_init_def)
  qed
  then show "\<And>n. n \<in> set type_names \<Longrightarrow> builtins n \<noteq> None" .
  from all have "resolve_oids builtins type_names = Inr (map (\<lambda>n. oid (the (builtins n))) type_names)"
    by (rule resolve_oids_all)
  with assms show "oid_values self = map (\<lambda>n. oid (the (builtins n))) type_names"
    by (auto simp: DBAPITypeObject_init_def)
qed

text \<open>
  Claim C4. For a type category that the constructor made from a list of type names and
  a registry, the equality test against an integer is the boolean that says whether the
  integer is the oid of one of the names of the list (true for a member oid, false for
  every other integer); against an object that is not an integer it returns
  \<open>NotImplemented\<close>, not false. The result is a value in both cases: the method has no
  path that raises.
\<close>

theorem DBAPITypeObject_eq_membership:
  assumes "DBAPITypeObject_init builtins nm type_names = Inr self"
  shows "(isinstance_int other = Some i \<longrightarrow>
            DBAPITypeObject_eq self other =
              Bool (\<exists>n. n \<in> set type_names \<and> (\<exists>info. builtins n = Some info \<and> oid info = i)))
         \<and> (isinstance_int other = None \<longrightarrow> DBAPITypeObject_eq self other = NotImplemented)"
proof (intro conjI impI)
  assume int: "isinstance_int other = Some i"
  have "i \<in> set (oid_values self) \<longleftrightarrow>
        (\<exists>n. n \<in> set type_names \<and> (\<exists>info. builtins n = Some info \<and> oid info = i))"
  proof
    assume "i \<in> set (oid_values self)"
    then obtain n where n: "n \<in> set type_names" "i = oid (the (builtins n))"
      by (auto simp: DBAPITypeObject_init_values(1) [OF assms])
    from DBAPITypeObject_init_values(2) [OF assms n(1)]
    obtain info where "builtins n = Some info" by blast
    with n show "\<exists>n. n \<in> set type_names \<and> (\<exists>info. builtins n = Some info \<and> oid info = i)"
      by auto
  next
    assume "\<exists>n. n \<in> set type_names \<and> (\<exists>info. builtins n = Some info \<and> oid info = i)"
    then obtain n info where "n \<in> set type_names" "builtins n = Some info" "oid info = i"
      by blast
    then show "i \<in> set (oid_values self)"
      by (force simp: DBAPITypeObject_init_values(1) [OF assms])
  qed
  with int show "DBAPITypeObject_eq self other =
      Bool (\<exists>n. n \<in> set type_names \<and> (\<exists>info. builtins n = Some info \<and> oid info = i))"
    by (simp add: DBAPITypeObject_eq_def)
next
  assume "isinstance_int other = None"
  then show "DBAPITypeObject_eq self other = NotImplemented"
    by (simp add: DBAPITypeObject_eq_def)
qed

lemma STRING_postgres_types:
  "STRING postgres_types = Inr \<lparr>name = ''STRING'', oid_values = [25, 1043, 1042]\<rparr>"
  by (simp add: STRING_def DBAPITypeObject_init_def getitem_def postgres_types_simps)

theorem DBAPITypeObject_eq_membership_witness:
  "DBAPITypeObject_init postgres_types ''STRING'' [''text'', ''varchar'', ''bpchar''] =
     Inr \<lparr>name = ''STRING'', oid_values = [25, 1043, 1042]\<rparr>
   \<and> DBAPITypeObject_eq \<lparr>name = ''STRING'', oid_values = [25, 1043, 1042]\<rparr> (PyInt 1043) = Bool True
   \<and> DBAPITypeObject_eq \<lparr>name = ''STRING'', oid_values = [25, 1043, 1042]\<rparr> (PyInt 17) = Bool False
   \<and> DBAPITypeObject_eq \<lparr>name = ''STRING'', oid_values = [25, 1043, 1042]\<rparr> (PyStr ''text'') =
       NotImplemented"
proof -
  let ?names = "[''text'', ''varchar'', ''bpchar'']"
  let ?self = "\<lparr>name = ''STRING'', oid_values = [25, 1043, 1042]\<rparr>"
  have made: "DBAPITypeObject_init postgres_types ''STRING'' ?names = Inr ?self"
    using STRING_postgres_types by (simp add: STRING_def)
  have member: "\<exists>n. n \<in> set ?names \<and> (\<exists>info. postgres_types n = Some info \<and> oid info = 1043)"
    by (rule exI [of _ "''varchar''"]) (simp add: postgres_types_simps)
  have stranger: "\<not> (\<exists>n. n \<in> set ?names \<and> (\<exists>info. postgres_types n = Some info \<and> oid info = 17))"
    by (auto simp: postgres_types_simps)
  from DBAPITypeObject_eq_membership [OF made, of "PyInt 1043" 1043] member
  have a: "DBAPITypeObject_eq ?self (PyInt 1043) = Bool True" by simp
  from DBAPITypeObject_eq_membership [OF made, of "PyInt 17" 17] stranger
  have b: "DBAPITypeObject_eq ?self (PyInt 17) = Bool False" by simp
  from DBAPITypeObject_eq_membership [OF made, of "PyStr ''text''"]
  have c: "DBAPITypeObject_eq ?self (PyStr ''text'') = NotImplemented" by simp
  from made a b c show ?thesis by simp
qed

text \<open>
  Claim C10. For every type category and every integer, the inequality test returns the
  negation of what the equality test returns; for every object that is not an integer
  both return \<open>NotImplemented\<close>.
\<close>

theorem DBAPITypeObject_ne_negates_eq:
  "(isinstance_int other = Some i \<longrightarrow>
      (\<exists>b. DBAPITypeObject_eq self other = Bool b \<and> DBAPITypeObject_ne self other = Bool (\<not> b)))
   \<and> (isinstance_int other = None \<longrightarrow>
      DBAPITypeObject_eq self other = NotImplemented \<and>
      DBAPITypeObject_ne self other = NotImplemented)"
  by (simp add: DBAPITypeObject_eq_def DBAPITypeObject_ne_def)

theorem DBAPITypeObject_ne_negates_eq_witness:
  "isinstance_int (PyInt 1700) = Some 1700
   \<and> DBAPITypeObject_eq \<lparr>name = ''NUMBER'', oid_values = [21, 23, 20, 700, 701, 1700]\<rparr> (PyInt 1700) = Bool True
   \<and> DBAPITypeObject_ne \<lparr>name = ''NUMBER'', oid_values = [21, 23, 20, 700, 701, 1700]\<rparr> (PyInt 1700) = Bool False
   \<and> isinstance_int PyNone = None
   \<and> DBAPITypeObject_eq \<lparr>name = ''NUMBER'', oid_values = [21, 23, 20, 700, 701, 1700]\<rparr> PyNone = NotImplemented
   \<and> DBAPITypeObject_ne \<lparr>name = ''NUMBER'', oid_values = [21, 23, 20, 700, 701, 1700]\<rparr> PyNone = NotImplemented"
proof -
  let ?self = "\<lparr>name = ''NUMBER'', oid_values = [21, 23, 20, 700, 701, 1700]\<rparr>"
  from DBAPITypeObject_ne_negates_eq [of "PyInt 1700" 1700 ?self]
  obtain b where b: "DBAPITypeObject_eq ?self (PyInt 1700) = Bool b"
    "DBAPITypeObject_ne ?self (PyInt 1700) = Bool (\<not> b)" by auto
  have "DBAPITypeObject_eq ?self (PyInt 1700) = Bool True"
    by (simp add: DBAPITypeObject_eq_def)
  with b have "b" by simp
  with b have int: "DBAPITypeObject_eq ?self (PyInt 1700) = Bool True"
    "DBAPITypeObject_ne ?self (PyInt 1700) = Bool False" by simp_all
  from DBAPITypeObject_ne_negates_eq [of PyNone _ ?self]
  have "DBAPITypeObject_eq ?self PyNone = NotImplemented"
    "DBAPITypeObject_ne ?self PyNone = NotImplemented" by simp_all
  with int show ?thesis by simp
qed

subsection \<open>Dumpers\<close>

text \<open>
  Claim C1. For every wrapper, the text-format dumper's \<open>dump\<close> is the escaping
  collaborator's \<open>escape_bytea\<close> applied to the bytes that the binary-format dumper's
  \<open>dump\<close> gives for the same wrapper, and nothing else; where the binary dump raises,
  the text dump raises the same exception.
\<close>

theorem BinaryTextDumper_dump_escapes_binary:
  "BinaryTextDumper_dump rules self b =
     map_sum id (escape_bytea rules (esc self)) (BinaryBinaryDumper_dump b)"
  by (simp add: BinaryTextDumper_dump_def split: sum.splits)

text \<open>
  Claim C5. When the payload of the wrapper is a \<^verbatim>\<open>bytes\<close> object, the binary-format
  dumper returns exactly those bytes. For any other payload it returns what the builtin
  coercion \<^verbatim>\<open>bytes(payload)\<close> returns, and fails as the coercion fails when the payload
  cannot be coerced.
\<close>

theorem BinaryBinaryDumper_dump_bytes_or_coercion:
  "(obj b = PyBytes raw \<longrightarrow> BinaryBinaryDumper_dump b = Inr raw)
   \<and> ((\<forall>raw. obj b \<noteq> PyBytes raw) \<longrightarrow> BinaryBinaryDumper_dump b = py_bytes (obj b))"
  by (cases "obj b") (simp_all add: BinaryBinaryDumper_dump_def)

theorem BinaryBinaryDumper_dump_bytes_or_coercion_witness:
  "obj (Binary_init (PyBytes [0, 1, 255])) = PyBytes [0, 1, 255]
   \<and> BinaryBinaryDumper_dump (Binary_init (PyBytes [0, 1, 255])) = Inr [0, 1, 255]
   \<and> BinaryBinaryDumper_dump (Binary_init (PyList [PyInt 0, PyInt 1, PyInt 255])) = Inr [0, 1, 255]
   \<and> BinaryBinaryDumper_dump (Binary_init (PyByteArray [7])) = Inr [7]
   \<and> BinaryBinaryDumper_dump (Binary_init (PyInt 2)) = Inr [0, 0]
   \<and> BinaryBinaryDumper_dump (Binary_init (PyStr ''abc'')) = Inl TypeError
   \<and> BinaryBinaryDumper_dump (Binary_init (PyList [PyInt 256])) = Inl ValueError"
proof -
  have other: "\<forall>raw. obj (Binary_init x) \<noteq> PyBytes raw"
    if "isinstance_bytes x = None" for x
    using that by (cases x) (simp_all add: Binary_init_def)
  have coerce: "BinaryBinaryDumper_dump (Binary_init x) = py_bytes x"
    if "isinstance_bytes x = None" for x
    using BinaryBinaryDumper_dump_bytes_or_coercion [of "Binary_init x"] other [OF that]
    by (simp add: Binary_init_def)
  have "BinaryBinaryDumper_dump (Binary_init (PyBytes [0, 1, 255])) = Inr [0, 1, 255]"
    using BinaryBinaryDumper_dump_bytes_or_coercion [of "Binary_init (PyBytes [0, 1, 255])" "[0, 1, 255]"]
    by (simp add: Binary_init_def)
  then show ?thesis
    by (simp add: coerce numeral_2_eq_2) (simp add: Binary_init_def)
qed

text \<open>
  Claim C2. When no connection is active (there is no context, or the context has no
  connection), constructing the text-format dumper succeeds; its escaping engine holds
  no connection handle, and dumping a byte string with it succeeds and gives the bytes
  escaped by the context-free rules.
\<close>

theorem BinaryTextDumper_init_without_connection:
  assumes "(case context of None \<Rightarrow> None | Some ctx \<Rightarrow> ctx_connection ctx) = None"
  shows "\<exists>self. BinaryTextDumper_init c context = Inr self
           \<and> conn (esc self) = None
           \<and> (\<forall>data. BinaryTextDumper_dump rules self (Binary_init (PyBytes data)) =
                       Inr (rules None data))"
  using assms
  by (simp add: BinaryTextDumper_init_def Dumper_init_def Escaping_init_def
      BinaryTextDumper_dump_def BinaryBinaryDumper_dump_def Binary_init_def escape_bytea_def
      Dumper.extend_def BinaryTextDumper.fields_def BinaryTextDumper.defs Dumper.defs)

theorem BinaryTextDumper_init_without_connection_witness:
  "BinaryTextDumper_init ''Binary'' None =
     Inr \<lparr>cls = ''Binary'', connection = None, esc = \<lparr>conn = None\<rparr>\<rparr>
   \<and> BinaryTextDumper_dump hex_rules \<lparr>cls = ''Binary'', connection = None, esc = \<lparr>conn = None\<rparr>\<rparr>
       (Binary_init (PyBytes [0, 1, 255])) = Inr [92, 120, 48, 48, 48, 49, 102, 102]
   \<and> BinaryTextDumper_init ''Binary'' (Some \<lparr>ctx_connection = None\<rparr>) =
     Inr \<lparr>cls = ''Binary'', connection = None, esc = \<lparr>conn = None\<rparr>\<rparr>"
proof -
  have made: "BinaryTextDumper_init ''Binary'' ctx =
     Inr \<lparr>cls = ''Binary'', connection = None, esc = \<lparr>conn = None\<rparr>\<rparr>"
    if "(case ctx of None \<Rightarrow> None | Some c \<Rightarrow> ctx_connection c) = None" for ctx
  proof -
    from BinaryTextDumper_init_without_connection [OF that, of "''Binary''" hex_rules]
    obtain self where self: "BinaryTextDumper_init ''Binary'' ctx = Inr self" "conn (esc self) = None"
      by blast
    from self(1) that have "cls self = ''Binary''" "connection self = None"
      by (auto simp: BinaryTextDumper_init_def Dumper_init_def Escaping_init_def Dumper.defs
          split: sum.splits)
    with self show ?thesis by (cases self) simp
  qed
  have rule: "hex_rules None [0, 1, 255] = [92, 120, 48, 48, 48, 49, 102, 102]"
    by (simp add: hex_rules_def hex_digit_def)
  from BinaryTextDumper_init_without_connection [of None "''Binary''" hex_rules] made [of None]
  have "BinaryTextDumper_dump hex_rules \<lparr>cls = ''Binary'', connection = None, esc = \<lparr>conn = None\<rparr>\<rparr>
       (Binary_init (PyBytes [0, 1, 255])) = Inr (hex_rules None [0, 1, 255])"
    by simp
  with made [of None] made [of "Some \<lparr>ctx_connection = None\<rparr>"] rule show ?thesis by simp
qed

subsection \<open>The wrapper\<close>

lemma digit_value_nth: "d < 10 \<Longrightarrow> digit_value (''0123456789'' ! d) = d"
proof -
  assume "d < 10"
  then have "d \<in> {0, 1, 2, 3, 4, 5, 6, 7, 8, 9}" by auto
  then show ?thesis by (auto simp: digit_value_def)
qed

lemma nat_of_str_snoc: "nat_of_str (s @ [c]) = 10 * nat_of_str s + digit_value c"
  by (simp add: nat_of_str_def)

lemma nat_of_str_str_nat: "nat_of_str (str_nat n) = n"
proof (induction n rule: str_nat.induct)
  case (1 n)
  show ?case
  proof (cases "n < 10")
    case True
    then show ?thesis
      by (subst str_nat.simps) (simp add: nat_of_str_def digit_value_nth)
  next
    case False
    with "1" have "nat_of_str (str_nat (n div 10)) = n div 10" by simp
    with False show ?thesis
      by (subst str_nat.simps) (simp add: nat_of_str_snoc digit_value_nth)
  qed
qed

text \<open>
  Claim C6. The wrapper's diagnostic string is the class name and, in parentheses, the
  payload's representation: unabbreviated when it has at most 40 characters; when it
  has more than 40, replaced by its first 35 characters followed by
  \<^verbatim>\<open> ... (N byteschars)\<close>, where \<open>N\<close> writes in decimal the length of the whole
  representation.
\<close>

theorem Binary_repr_abbreviates:
  "(length (repr (obj self)) \<le> 40 \<longrightarrow>
      Binary_repr repr self = class_name self @ ''('' @ repr (obj self) @ '')'')
   \<and> (40 < length (repr (obj self)) \<longrightarrow>
      Binary_repr repr self =
        class_name self @ ''('' @ take 35 (repr (obj self)) @ '' ... ('' @
          str_nat (length (repr (obj self))) @ '' byteschars)'' @ '')''
      \<and> length (take 35 (repr (obj self))) = 35
      \<and> nat_of_str (str_nat (length (repr (obj self)))) = length (repr (obj self)))"
  by (simp add: Binary_repr_def Let_def nat_of_str_str_nat)

theorem Binary_repr_abbreviates_witness:
  "length (''b'' @ [CHR 0x27] @ replicate 37 CHR ''a'' @ [CHR 0x27]) \<le> 40
   \<and> Binary_repr (\<lambda>x. ''b'' @ [CHR 0x27] @ replicate 37 CHR ''a'' @ [CHR 0x27])
        (Binary_init (PyBytes (replicate 37 97))) =
      ''Binary(b'' @ [CHR 0x27] @ ''aaaaaaaaaaaaaaaaaaaaaaaaaaaaaaaaaaaaa'' @ [CHR 0x27] @ '')''
   \<and> 40 < length (''b'' @ [CHR 0x27] @ replicate 38 CHR ''a'' @ [CHR 0x27])
   \<and> Binary_repr (\<lambda>x. ''b'' @ [CHR 0x27] @ replicate 38 CHR ''a'' @ [CHR 0x27])
        (Binary_init (PyBytes (replicate 38 97))) =
      ''Binary(b'' @ [CHR 0x27] @ ''aaaaaaaaaaaaaaaaaaaaaaaaaaaaaaaaa ... (41 byteschars))''"
proof -
  let ?r40 = "\<lambda>x::pyobj. ''b'' @ [CHR 0x27] @ replicate 37 CHR ''a'' @ [CHR 0x27]"
  let ?r41 = "\<lambda>x::pyobj. ''b'' @ [CHR 0x27] @ replicate 38 CHR ''a'' @ [CHR 0x27]"
  have n41: "str_nat 41 = ''41''" by code_simp
  have r37: "replicate 37 CHR ''a'' = ''aaaaaaaaaaaaaaaaaaaaaaaaaaaaaaaaaaaaa''" by code_simp
  have r38: "replicate 33 CHR ''a'' = ''aaaaaaaaaaaaaaaaaaaaaaaaaaaaaaaaa''" by code_simp
  from Binary_repr_abbreviates [of ?r40 "Binary_init (PyBytes (replicate 37 97))"]
  have a: "Binary_repr ?r40 (Binary_init (PyBytes (replicate 37 97))) =
      ''Binary(b'' @ [CHR 0x27] @ ''aaaaaaaaaaaaaaaaaaaaaaaaaaaaaaaaaaaaa'' @ [CHR 0x27] @ '')''"
    by (simp add: Binary_init_def r37)
  from Binary_repr_abbreviates [of ?r41 "Binary_init (PyBytes (replicate 38 97))"]
  have b: "Binary_repr ?r41 (Binary_init (PyBytes (replicate 38 97))) =
      ''Binary(b'' @ [CHR 0x27] @ ''aaaaaaaaaaaaaaaaaaaaaaaaaaaaaaaaa ... (41 byteschars))''"
    by (simp add: Binary_init_def n41 r38)
  from a b show ?thesis by simp
qed

subsection \<open>Timestamps from ticks\<close>

text \<open>
  Claim C8. For every ticks value (and one host), \<open>DateFromTicks\<close> and \<open>TimeFromTicks\<close>
  return the date fields and the time-of-day fields of what \<open>TimestampFromTicks\<close> returns
  for the same ticks, and fail with its exception when it fails.
\<close>

theorem FromTicks_project_TimestampFromTicks:
  "(case TimestampFromTicks localtime ticks of
      Inl e \<Rightarrow>
        DateFromTicks localtime ticks = Inl e \<and> TimeFromTicks localtime ticks = Inl e
    | Inr ts \<Rightarrow>
        DateFromTicks localtime ticks = Inr \<lparr>year = year ts, month = month ts, day = day ts\<rparr>
        \<and> TimeFromTicks localtime ticks =
            Inr \<lparr>time_hour = hour ts, time_minute = minute ts, time_second = second ts,
                 time_microsecond = microsecond ts, time_tzinfo = None\<rparr>)"
  by (simp add: DateFromTicks_def TimeFromTicks_def datetime_date_def datetime_time_def
      split: sum.splits)

text \<open>Rounding to the nearest integer: how far, and which way.\<close>

lemma py_round_near: "\<bar>of_int (py_round x) - x\<bar> \<le> 1 / 2"
proof -
  have "of_int \<lfloor>x\<rfloor> \<le> x" "x < of_int \<lfloor>x\<rfloor> + 1" by linarith+
  then show ?thesis
    unfolding py_round_def Let_def by (auto simp: abs_le_iff)
qed

lemma py_round_up: "of_int n + 1 / 2 < x \<Longrightarrow> x < of_int n + 1 \<Longrightarrow> py_round x = n + 1"
proof -
  assume a: "of_int n + 1 / 2 < x" and b: "x < of_int n + 1"
  then have "\<lfloor>x\<rfloor> = n" by (simp add: floor_eq_iff)
  with a show ?thesis by (simp add: py_round_def Let_def)
qed

lemma py_round_down: "of_int n \<le> x \<Longrightarrow> x < of_int n + 1 / 2 \<Longrightarrow> py_round x = n"
proof -
  assume a: "of_int n \<le> x" and b: "x < of_int n + 1 / 2"
  then have "\<lfloor>x\<rfloor> = n" by (simp add: floor_eq_iff)
  with b show ?thesis by (simp add: py_round_def Let_def)
qed

lemma py_round_carry:
  assumes "9999995 / 10000000 \<le> ticks - of_int (py_floor ticks)"
  shows "py_round ((ticks - of_int (py_floor ticks)) * 1000000) = 1000000"
proof -
  let ?x = "(ticks - of_int (py_floor ticks)) * 1000000"
  have lt: "ticks - of_int (py_floor ticks) < 1"
    unfolding py_floor_def by linarith
  from assms have lo: "of_int 999999 + 1 / 2 \<le> ?x" by simp
  from lt have hi: "?x < of_int 999999 + 1" by simp
  from lo hi have fl: "\<lfloor>?x\<rfloor> = 999999" by (simp add: floor_eq_iff)
    have half: "1 / 2 \<le> ?x - of_int \<lfloor>?x\<rfloor>" using lo fl by simp
  have odd: "\<not> even (999999 :: int)" by simp
  show ?thesis
  proof (cases "1 / 2 < ?x - of_int \<lfloor>?x\<rfloor>")
    case True
    with half fl show ?thesis by (simp add: py_round_def Let_def)
  next
    case False
    with half have "?x - of_int \<lfloor>?x\<rfloor> = 1 / 2" by simp
    with fl odd show ?thesis by (simp add: py_round_def Let_def)
  qed
qed

lemma datetime_new_microsecond_range:
  "datetime_new y m d h mi s 1000000 tz = Inl ValueError"
  by (simp add: datetime_new_def check_time_fields_def)

text \<open>What a returned timestamp holds.\<close>

lemma TimestampFromTicks_fields:
  assumes "TimestampFromTicks localtime ticks = Inr ts" and "localtime ticks = Inr t"
  shows "year ts = tm_year t" "month ts = tm_mon t" "day ts = tm_mday t"
    "hour ts = tm_hour t" "minute ts = tm_min t" "second ts = tm_sec t"
    "microsecond ts = py_round ((ticks - of_int \<lfloor>ticks\<rfloor>) * 1000000)"
    "tzinfo ts = Some \<lparr>utcoffset = tm_gmtoff t\<rparr>"
    "0 \<le> microsecond ts" "microsecond ts \<le> 999999"
  using assms
  by (auto simp: TimestampFromTicks_def Let_def py_floor_def timezone_new_def datetime_new_def
      check_time_fields_def split: sum.splits if_splits)

text \<open>
  The double \<^verbatim>\<open>1.0 - 1e-7\<close> is the rational \<open>9007198354021067 / 2 ^ 53\<close>, and
  \<open>2 ^ 53 = 9007199254740992\<close>. On a host in UTC it lies in the first second of 1970.
\<close>

lemma floor_just_below_1: "\<lfloor>9007198354021067 / 9007199254740992 :: rat\<rfloor> = 0"
  by (simp add: floor_eq_iff)

lemma civil_from_days_0: "civil_from_days 0 = (1970, 1, 1)"
  by code_simp

lemma localtime_fixed_just_below_1:
  "localtime_fixed 0 (9007198354021067 / 9007199254740992) =
     Inr \<lparr>tm_year = 1970, tm_mon = 1, tm_mday = 1, tm_hour = 0, tm_min = 0, tm_sec = 0,
          tm_gmtoff = 0\<rparr>"
  by (simp add: localtime_fixed_def Let_def floor_just_below_1 civil_from_days_0)

lemma py_round_just_below_1:
  "py_round ((9007198354021067 / 9007199254740992 -
       of_int (py_floor (9007198354021067 / 9007199254740992))) * 1000000) = 1000000"
  using py_round_up [of 999999 "(9007198354021067 / 9007199254740992) * 1000000"]
  by (simp add: py_floor_def floor_just_below_1)

text \<open>
  Claim C3. The claim is that a ticks value whose fraction rounds up to 1,000,000
  microseconds gives a timestamp with the overflow carried: microsecond 0 and one second
  more. The code does not carry. For \<^verbatim>\<open>ticks = 1.0 - 1e-7\<close> on a host in UTC,
  \<^verbatim>\<open>round(frac * 1_000_000)\<close> is 1000000 and goes to \<^verbatim>\<open>dt.datetime\<close> as the microsecond,
  which refuses it: the result is a \<open>ValueError\<close>, not 1970-01-01 00:00:01.
\<close>

theorem TimestampFromTicks_just_below_1:
  "TimestampFromTicks (localtime_fixed 0) (9007198354021067 / 9007199254740992) = Inl ValueError"
proof -
  have tz: "timezone_new 0 = Inr \<lparr>utcoffset = 0\<rparr>"
    by (simp add: timezone_new_def)
  show ?thesis
    unfolding TimestampFromTicks_def Let_def
    by (simp only: localtime_fixed_just_below_1 py_round_just_below_1 tz
        datetime_new_microsecond_range sum.case struct_time.select_convs)
qed

text \<open>
  The double \<^verbatim>\<open>1609459200 - 2 ** -22\<close> is the rational \<open>6750561160396799 / 2 ^ 22\<close>,
  and \<open>2 ^ 22 = 4194304\<close>: a quarter of a microsecond before 2021-01-01T00:00:00 UTC.
\<close>

lemma floor_new_year: "\<lfloor>6750561160396799 / 4194304 :: rat\<rfloor> = 1609459199"
  by (simp add: floor_eq_iff)

lemma civil_from_days_18628: "civil_from_days 18628 = (2021, 1, 1)"
  by code_simp

lemma localtime_fixed_new_year:
  "localtime_fixed 3600 (6750561160396799 / 4194304) =
     Inr \<lparr>tm_year = 2021, tm_mon = 1, tm_mday = 1, tm_hour = 0, tm_min = 59, tm_sec = 59,
          tm_gmtoff = 3600\<rparr>"
  by (simp add: localtime_fixed_def Let_def floor_new_year civil_from_days_18628)

lemma py_round_new_year:
  "py_round ((6750561160396799 / 4194304 - of_int (py_floor (6750561160396799 / 4194304))) * 1000000)
     = 1000000"
  using py_round_up [of 999999 "(6750561160396799 / 4194304 - 1609459199) * 1000000"]
  by (simp add: py_floor_def floor_new_year)

text \<open>
  Claim C7. The claim is that, for every finite ticks value in the calendar's range, the
  seconds since the epoch of the timestamp that \<open>TimestampFromTicks\<close> returns are within
  one microsecond of the ticks. For \<^verbatim>\<open>ticks = 1609459200 - 2 ** -22\<close> on a host one hour
  east of UTC, the code returns no timestamp at all: the fraction rounds to 1000000
  microseconds and the result is a \<open>ValueError\<close>, so no timestamp of the code is within
  one microsecond of these ticks.
\<close>

theorem TimestampFromTicks_no_roundtrip:
  "TimestampFromTicks (localtime_fixed 3600) (6750561160396799 / 4194304) = Inl ValueError
   \<and> \<not> (\<exists>ts s. TimestampFromTicks (localtime_fixed 3600) (6750561160396799 / 4194304) = Inr ts
          \<and> datetime_timestamp ts = Some s
          \<and> \<bar>s - 6750561160396799 / 4194304\<bar> \<le> 1 / 1000000)"
proof -
  have tz: "timezone_new 3600 = Inr \<lparr>utcoffset = 3600\<rparr>"
    by (simp add: timezone_new_def)
  have fails: "TimestampFromTicks (localtime_fixed 3600) (6750561160396799 / 4194304) = Inl ValueError"
    unfolding TimestampFromTicks_def Let_def
    by (simp only: localtime_fixed_new_year py_round_new_year tz
        datetime_new_microsecond_range sum.case struct_time.select_convs)
  show ?thesis
  proof (intro conjI notI)
    show "TimestampFromTicks (localtime_fixed 3600) (6750561160396799 / 4194304) = Inl ValueError"
      by (fact fails)
  next
    assume "\<exists>ts s. TimestampFromTicks (localtime_fixed 3600) (6750561160396799 / 4194304) = Inr ts
          \<and> datetime_timestamp ts = Some s
          \<and> \<bar>s - 6750561160396799 / 4194304\<bar> \<le> 1 / 1000000"
    then obtain ts
      where "TimestampFromTicks (localtime_fixed 3600) (6750561160396799 / 4194304) = Inr ts"
      by blast
    with fails show False by simp
  qed
qed

subsection \<open>More on the reconstruction\<close>

text \<open>
  On every host, a ticks value whose fraction is 0.9999995 or more gets no timestamp:
  the microseconds round to 1000000 and the constructor of \<^verbatim>\<open>datetime\<close> raises (when
  the host's local time or the zone has not failed before).
\<close>

theorem TimestampFromTicks_fails_on_carry:
  assumes "9999995 / 10000000 \<le> ticks - of_int \<lfloor>ticks\<rfloor>"
  shows "\<exists>e. TimestampFromTicks localtime ticks = Inl e"
proof -
  from assms have "py_round ((ticks - of_int (py_floor ticks)) * 1000000) = 1000000"
    by (intro py_round_carry) (simp add: py_floor_def)
  then show ?thesis
    unfolding TimestampFromTicks_def Let_def
    by (simp add: datetime_new_microsecond_range split: sum.splits)
qed

theorem TimestampFromTicks_fails_on_carry_witness:
  "(9999995 / 10000000 :: rat) \<le> 19999999 / 10000000 - of_int \<lfloor>19999999 / 10000000 :: rat\<rfloor>
   \<and> (\<exists>e. TimestampFromTicks (localtime_fixed 7200) (19999999 / 10000000) = Inl e)"
proof -
  have fl: "\<lfloor>19999999 / 10000000 :: rat\<rfloor> = 1" by (simp add: floor_eq_iff)
  have frac: "(9999995 / 10000000 :: rat) \<le> 19999999 / 10000000 - of_int \<lfloor>19999999 / 10000000 :: rat\<rfloor>"
    unfolding fl by simp
  from TimestampFromTicks_fails_on_carry [OF frac, of "localtime_fixed 7200"] frac
  show ?thesis by blast
qed

text \<open>
  When a timestamp is returned, and the calendar fields and offset that the host gave
  are those of the floor of the ticks, the seconds since the epoch of the timestamp
  are within half a microsecond of the ticks.
\<close>

theorem TimestampFromTicks_roundtrip:
  assumes made: "TimestampFromTicks localtime ticks = Inr ts"
    and host: "localtime ticks = Inr t"
    and consistent:
      "(ymd2ord (tm_year t) (tm_mon t) (tm_mday t) - 719163) * 86400
         + tm_hour t * 3600 + tm_min t * 60 + tm_sec t - tm_gmtoff t = \<lfloor>ticks\<rfloor>"
  shows "\<exists>s. datetime_timestamp ts = Some s \<and> \<bar>s - ticks\<bar> \<le> 1 / 2000000"
proof -
  let ?us = "py_round ((ticks - of_int \<lfloor>ticks\<rfloor>) * 1000000)"
  note f = TimestampFromTicks_fields [OF made host]
  have ts: "datetime_timestamp ts = Some (of_int \<lfloor>ticks\<rfloor> + of_int ?us / 1000000)"
    unfolding datetime_timestamp_def
    by (simp only: f option.case timezone.select_convs consistent)
  have "\<bar>of_int ?us - (ticks - of_int \<lfloor>ticks\<rfloor>) * 1000000\<bar> \<le> 1 / 2"
    by (rule py_round_near)
  then have "\<bar>(of_int \<lfloor>ticks\<rfloor> + of_int ?us / 1000000) - ticks\<bar> \<le> 1 / 2000000"
    by (simp add: abs_le_iff field_simps)
  with ts show ?thesis by blast
qed

lemma floor_new_year_third: "\<lfloor>4828377601 / 3 :: rat\<rfloor> = 1609459200"
  by (simp add: floor_eq_iff)

lemma civil_from_days_18627: "civil_from_days 18627 = (2020, 12, 31)"
  by code_simp

lemma ymd2ord_2020_12_31: "ymd2ord 2020 12 31 = 737790"
  by code_simp

lemma localtime_fixed_new_year_third:
  "localtime_fixed (- 18000) (4828377601 / 3) =
     Inr \<lparr>tm_year = 2020, tm_mon = 12, tm_mday = 31, tm_hour = 19, tm_min = 0, tm_sec = 0,
          tm_gmtoff = - 18000\<rparr>"
  by (simp add: localtime_fixed_def Let_def floor_new_year_third civil_from_days_18627)

lemma py_round_third:
  "py_round ((4828377601 / 3 - of_int (py_floor (4828377601 / 3))) * 1000000) = 333333"
  using py_round_down [of 333333 "(4828377601 / 3 - 1609459200) * 1000000"]
  by (simp add: py_floor_def floor_new_year_third)

lemma check_date_fields_2020_12_31: "check_date_fields 2020 12 31"
  by code_simp

lemma TimestampFromTicks_new_year_third:
  "TimestampFromTicks (localtime_fixed (- 18000)) (4828377601 / 3) =
     Inr \<lparr>year = 2020, month = 12, day = 31, hour = 19, minute = 0, second = 0,
          microsecond = 333333, tzinfo = Some \<lparr>utcoffset = - 18000\<rparr>\<rparr>"
proof -
  have tz: "timezone_new (- 18000) = Inr \<lparr>utcoffset = - 18000\<rparr>"
    by (simp add: timezone_new_def)
  have dt: "datetime_new 2020 12 31 19 0 0 333333 (Some \<lparr>utcoffset = - 18000\<rparr>) =
     Inr \<lparr>year = 2020, month = 12, day = 31, hour = 19, minute = 0, second = 0,
          microsecond = 333333, tzinfo = Some \<lparr>utcoffset = - 18000\<rparr>\<rparr>"
    by (simp add: datetime_new_def check_date_fields_2020_12_31 check_time_fields_def)
  show ?thesis
    unfolding TimestampFromTicks_def Let_def
    by (simp only: localtime_fixed_new_year_third py_round_third tz dt sum.case
        struct_time.select_convs)
qed

theorem TimestampFromTicks_roundtrip_witness:
  "TimestampFromTicks (localtime_fixed (- 18000)) (4828377601 / 3) =
     Inr \<lparr>year = 2020, month = 12, day = 31, hour = 19, minute = 0, second = 0,
          microsecond = 333333, tzinfo = Some \<lparr>utcoffset = - 18000\<rparr>\<rparr>
   \<and> (\<exists>s. datetime_timestamp
            \<lparr>year = 2020, month = 12, day = 31, hour = 19, minute = 0, second = 0,
             microsecond = 333333, tzinfo = Some \<lparr>utcoffset = - 18000\<rparr>\<rparr> = Some s
          \<and> \<bar>s - 4828377601 / 3\<bar> \<le> 1 / 2000000)"
proof -
  have consistent:
    "(ymd2ord (tm_year t) (tm_mon t) (tm_mday t) - 719163) * 86400
       + tm_hour t * 3600 + tm_min t * 60 + tm_sec t - tm_gmtoff t = \<lfloor>4828377601 / 3 :: rat\<rfloor>"
    if "t = \<lparr>tm_year = 2020, tm_mon = 12, tm_mday = 31, tm_hour = 19, tm_min = 0, tm_sec = 0,
          tm_gmtoff = - 18000\<rparr>" for t
    unfolding that by (simp add: ymd2ord_2020_12_31 floor_new_year_third)
  from TimestampFromTicks_roundtrip
    [OF TimestampFromTicks_new_year_third localtime_fixed_new_year_third consistent [OF refl]]
    TimestampFromTicks_new_year_third
  show ?thesis by blast
qed

end
